theory Spec2Isabelle
  imports Main "HOL-Library.Sublist" "HOL-Library.AList" "HOL-Library.Char_ord"
    "HOL-Library.List_Lexorder"
begin

section \<open>Python values used by the transport\<close>

text \<open>
  A \<^verbatim>\<open>bytes\<close>/\<^verbatim>\<open>bytearray\<close> value is a list of 8-bit characters; a Python
  \<^verbatim>\<open>str\<close> is a list of Unicode code points, so that \<^verbatim>\<open>len\<close> of a decoded buffer
  counts code points and \<^verbatim>\<open>len\<close> of a byte buffer counts bytes.  An exception is
  a value carrying its class name and the text \<^verbatim>\<open>str(e)\<close> gives.
\<close>

type_synonym bytes = string
type_synonym pystr = "nat list"

datatype pyexn = PyExn (exn_type: string) (exn_text: string)

subsection \<open>\<^verbatim>\<open>bytes.decode('utf-8', errors='replace')\<close> and \<^verbatim>\<open>str.encode('utf-8')\<close>\<close>

text \<open>
  The decoder follows CPython: an invalid start byte is replaced by U+FFFD on its own, an
  invalid continuation byte ends the sequence before it (the bytes read so far become one
  U+FFFD and decoding resumes at the offending byte), and a sequence cut off by the end of
  the data becomes one U+FFFD.  The second byte of a three- or four-byte sequence is
  range-checked so that overlong forms, surrogates and values past U+10FFFF are rejected.
\<close>

definition is_continuation_byte :: "nat \<Rightarrow> bool" where
  "is_continuation_byte b \<longleftrightarrow> 0x80 \<le> b \<and> b < 0xC0"

fun utf8_decode :: "bytes \<Rightarrow> pystr" where
  "utf8_decode [] = []"
| "utf8_decode (c # s) =
    (let ch = (of_char c :: nat) in
     if ch < 0x80 then ch # utf8_decode s
     else if ch < 0xC2 then 0xFFFD # utf8_decode s
     else if ch < 0xE0 then
       (case s of
          [] \<Rightarrow> [0xFFFD]
        | c2 # s2 \<Rightarrow>
            if \<not> is_continuation_byte (of_char c2) then 0xFFFD # utf8_decode s
            else ((ch - 0xC0) * 64 + (of_char c2 - 0x80)) # utf8_decode s2)
     else if ch < 0xF0 then
       (case s of
          [] \<Rightarrow> [0xFFFD]
        | c2 # s2 \<Rightarrow>
            if \<not> is_continuation_byte (of_char c2)
               \<or> (if (of_char c2 :: nat) < 0xA0 then ch = 0xE0 else ch = 0xED)
            then 0xFFFD # utf8_decode s
            else (case s2 of
                    [] \<Rightarrow> [0xFFFD]
                  | c3 # s3 \<Rightarrow>
                      if \<not> is_continuation_byte (of_char c3) then 0xFFFD # utf8_decode s2
                      else ((ch - 0xE0) * 4096 + (of_char c2 - 0x80) * 64
                              + (of_char c3 - 0x80)) # utf8_decode s3))
     else if ch < 0xF5 then
       (case s of
          [] \<Rightarrow> [0xFFFD]
        | c2 # s2 \<Rightarrow>
            if \<not> is_continuation_byte (of_char c2)
               \<or> (if (of_char c2 :: nat) < 0x90 then ch = 0xF0 else ch = 0xF4)
            then 0xFFFD # utf8_decode s
            else (case s2 of
                    [] \<Rightarrow> [0xFFFD]
                  | c3 # s3 \<Rightarrow>
                      if \<not> is_continuation_byte (of_char c3) then 0xFFFD # utf8_decode s2
                      else (case s3 of
                              [] \<Rightarrow> [0xFFFD]
                            | c4 # s4 \<Rightarrow>
                                if \<not> is_continuation_byte (of_char c4)
                                then 0xFFFD # utf8_decode s3
                                else ((ch - 0xF0) * 262144 + (of_char c2 - 0x80) * 4096
                                        + (of_char c3 - 0x80) * 64
                                        + (of_char c4 - 0x80)) # utf8_decode s4)))
     else 0xFFFD # utf8_decode s)"

text \<open>
  The strict encoder: a surrogate (and anything that is not a code point) makes
  \<^verbatim>\<open>encode\<close> raise \<^verbatim>\<open>UnicodeEncodeError\<close>, the value \<open>None\<close> here.
\<close>

definition encode_char :: "nat \<Rightarrow> bytes option" where
  "encode_char cp =
    (if cp < 0x80 then Some [char_of cp]
     else if cp < 0x800 then Some [char_of (0xC0 + cp div 64), char_of (0x80 + cp mod 64)]
     else if cp < 0x10000 then
       (if 0xD800 \<le> cp \<and> cp < 0xE000 then None
        else Some [char_of (0xE0 + cp div 4096), char_of (0x80 + cp div 64 mod 64),
                   char_of (0x80 + cp mod 64)])
     else if cp < 0x110000 then
       Some [char_of (0xF0 + cp div 262144), char_of (0x80 + cp div 4096 mod 64),
             char_of (0x80 + cp div 64 mod 64), char_of (0x80 + cp mod 64)]
     else None)"

fun utf8_encode :: "pystr \<Rightarrow> bytes option" where
  "utf8_encode [] = Some []"
| "utf8_encode (cp # s) =
    (case encode_char cp of
       None \<Rightarrow> None
     | Some b \<Rightarrow> (case utf8_encode s of None \<Rightarrow> None | Some r \<Rightarrow> Some (b @ r)))"

subsection \<open>\<^verbatim>\<open>str(n)\<close>, \<^verbatim>\<open>int(s)\<close> and the header pattern\<close>

fun str_nat :: "nat \<Rightarrow> pystr" where
  "str_nat n = (if n < 10 then [48 + n] else str_nat (n div 10) @ [48 + n mod 10])"

declare str_nat.simps [simp del]

text \<open>
  \<^verbatim>\<open>\d\<close> is modelled on the ASCII digits, the only ones \<^verbatim>\<open>send\<close> writes; the
  decimal digits of other scripts, which Python's \<^verbatim>\<open>\d\<close> and \<^verbatim>\<open>int\<close> accept as
  well, are not.
\<close>

definition is_digit :: "nat \<Rightarrow> bool" where
  "is_digit c \<longleftrightarrow> 48 \<le> c \<and> c \<le> 57"

definition int_of_digits :: "pystr \<Rightarrow> nat" where
  "int_of_digits ds = foldl (\<lambda>a d. 10 * a + (d - 48)) 0 ds"

definition header_name :: pystr where
  "header_name = map of_char ''Content-Length: ''"

definition crlf_crlf :: pystr where
  "crlf_crlf = [13, 10, 13, 10]"

text \<open>
  \<^verbatim>\<open>re.search(r'Content-Length: (\d+)\r\n\r\n', buffer_str)\<close>: the leftmost match.
  \<open>\d+\<close> is greedy and is followed by a character that is no digit, so at a given start
  the group is the whole run of digits.  The result is
  \<^verbatim>\<open>(int(match.group(1)), match.end())\<close>.
\<close>

definition match_at_start :: "pystr \<Rightarrow> (nat \<times> nat) option" where
  "match_at_start s =
    (if take 16 s = header_name then
       (let ds = takeWhile is_digit (drop 16 s) in
        if ds \<noteq> [] \<and> take 4 (drop (16 + length ds) s) = crlf_crlf
        then Some (int_of_digits ds, 16 + length ds + 4)
        else None)
     else None)"

fun re_search :: "pystr \<Rightarrow> (nat \<times> nat) option" where
  "re_search [] = None"
| "re_search (c # s) =
    (case match_at_start (c # s) of
       Some r \<Rightarrow> Some r
     | None \<Rightarrow> (case re_search s of None \<Rightarrow> None | Some (n, e) \<Rightarrow> Some (n, Suc e)))"


subsection \<open>Decoding what was encoded\<close>

text \<open>
  \<^verbatim>\<open>_process_buffer\<close> re-encodes the rest of the decoded buffer and, when it calls
  itself, decodes it again.  Its termination rests on the round trip below.
\<close>

lemma split3: "(cp::nat) div 4096 * 4096 + cp div 64 mod 64 * 64 + cp mod 64 = cp"
proof -
  define q where "q = cp div 64"
  have "cp div 4096 = q div 64" by (simp add: q_def div_mult2_eq)
  moreover have "q div 64 * 64 + q mod 64 = q" by simp
  then have "q div 64 * 4096 + q mod 64 * 64 = q * 64" by linarith
  moreover have "q * 64 + cp mod 64 = cp" by (simp add: q_def)
  ultimately show ?thesis by (simp add: q_def)
qed

lemma split4: "(cp::nat) div 262144 * 262144 + cp div 4096 mod 64 * 4096 + cp div 64 mod 64 * 64 + cp mod 64 = cp"
proof -
  define q where "q = cp div 4096"
  have "cp div 262144 = q div 64" by (simp add: q_def div_mult2_eq)
  moreover have "q div 64 * 64 + q mod 64 = q" by simp
  then have "q div 64 * 262144 + q mod 64 * 4096 = q * 4096" by linarith
  ultimately have "cp div 262144 * 262144 + cp div 4096 mod 64 * 4096 = cp div 4096 * 4096"
    by (simp add: q_def)
  then show ?thesis using split3[of cp] by linarith
qed

lemma encode_char_decode:
  assumes "encode_char cp = Some b"
  shows "utf8_decode (b @ r) = cp # utf8_decode r"
proof -
  define a4 where "a4 = cp div 262144"
  define a3 where "a3 = cp div 4096"
  define b4 where "b4 = cp div 4096 mod 64"
  define a2 where "a2 = cp div 64"
  define c where "c = cp div 64 mod 64"
  define d where "d = cp mod 64"
  have bounds: "b4 < 64" "c < 64" "d < 64" by (simp_all add: b4_def c_def d_def)
  have e2: "cp = a2 * 64 + d" by (simp add: a2_def d_def)
  have e3: "cp = a3 * 4096 + c * 64 + d" using split3[of cp] by (simp add: a3_def c_def d_def)
  have e4: "cp = a4 * 262144 + b4 * 4096 + c * 64 + d" using split4[of cp]
    by (simp add: a4_def b4_def c_def d_def)
  consider (one) "cp < 0x80" | (two) "0x80 \<le> cp" "cp < 0x800"
    | (three) "0x800 \<le> cp" "cp < 0x10000" "\<not> (0xD800 \<le> cp \<and> cp < 0xE000)"
    | (four) "0x10000 \<le> cp" "cp < 0x110000"
    using assms by (auto simp: encode_char_def split: if_splits)
  then show ?thesis
  proof cases
    case one
    with assms show ?thesis by (auto simp add: encode_char_def)
  next
    case two
    with assms have b: "b = [char_of (0xC0 + a2), char_of (0x80 + d)]"
      by (simp add: encode_char_def a2_def d_def)
    have r: "2 \<le> a2" "a2 < 32" using two e2 bounds by linarith+
    show ?thesis using r bounds e2 by (simp add: b is_continuation_byte_def Let_def)
  next
    case three
    with assms have b: "b = [char_of (0xE0 + a3), char_of (0x80 + c), char_of (0x80 + d)]"
      by (simp add: encode_char_def a3_def c_def d_def)
    have r: "a3 < 16" "a3 = 0 \<longrightarrow> 32 \<le> c" "a3 = 13 \<longrightarrow> c < 32"
      using three e3 bounds by linarith+
    show ?thesis using r bounds e3 by (auto simp add: b is_continuation_byte_def Let_def)
  next
    case four
    with assms have b: "b = [char_of (0xF0 + a4), char_of (0x80 + b4), char_of (0x80 + c), char_of (0x80 + d)]"
      by (simp add: encode_char_def a4_def b4_def c_def d_def)
    have r: "a4 < 5" "a4 = 0 \<longrightarrow> 16 \<le> b4" "a4 = 4 \<longrightarrow> b4 < 16"
      using four e4 bounds by linarith+
    show ?thesis using r bounds e4 by (auto simp add: b is_continuation_byte_def Let_def)
  qed
qed

lemma utf8_roundtrip: "utf8_encode s = Some b \<Longrightarrow> utf8_decode b = s"
proof (induction s arbitrary: b)
  case Nil then show ?case by simp
next
  case (Cons cp s)
  then obtain b1 r where e: "encode_char cp = Some b1" and r: "utf8_encode s = Some r" and b: "b = b1 @ r"
    by (auto split: option.splits)
  from Cons.IH[OF r] encode_char_decode[OF e, of r] b show ?case by simp
qed

lemma re_search_end_pos: "re_search s = Some (n, e) \<Longrightarrow> 0 < e"
  by (induction s arbitrary: n e)
     (auto simp: match_at_start_def Let_def split: option.splits if_splits)

section \<open>The transport: \<^verbatim>\<open>StdioTransport._process_buffer\<close>\<close>

text \<open>
  The read side of the transport.  Its state is the read buffer together with the state
  \<open>'w\<close> of everything the callbacks act on; the callbacks never touch the read buffer, so
  they are functions on \<open>'w\<close> alone.  A callback returns the new state and the exception it
  raised, if any.  \<^verbatim>\<open>json.loads\<close> is a parameter: it returns the message or raises
  (\<open>Inl\<close>).  \<^verbatim>\<open>onmessage\<close> and \<^verbatim>\<open>onerror\<close> are optional, as the attributes are.

  \<open>parse_and_dispatch\<close> is the \<^verbatim>\<open>try\<close> statement of the loop body: a
  \<^verbatim>\<open>JSONDecodeError\<close> from parsing or from the callback goes to \<^verbatim>\<open>onerror\<close> (or is
  only logged), any other exception propagates.

  \<open>process_buffer\<close> is the method and \<open>process_loop\<close> its \<^verbatim>\<open>while True\<close> loop on the
  local variable \<^verbatim>\<open>buffer_str\<close>.  After a message is cut out, the attribute
  \<^verbatim>\<open>_read_buffer\<close> is replaced by the encoded rest; after the dispatch the method calls
  itself when that rest is not empty, and then the loop goes on with the local
  \<^verbatim>\<open>buffer_str\<close>, which still holds the same rest.  The result is the final state and
  the exception that left the method, if any.
\<close>

type_synonym ('m, 'w) callback = "'m \<Rightarrow> 'w \<Rightarrow> 'w \<times> pyexn option"

definition parse_and_dispatch ::
  "(pystr \<Rightarrow> pyexn + 'm) \<Rightarrow> ('m, 'w) callback option \<Rightarrow> (pyexn, 'w) callback option
     \<Rightarrow> pystr \<Rightarrow> 'w \<Rightarrow> 'w \<times> pyexn option" where
  "parse_and_dispatch loads onmessage onerror message_str w =
    (let (w1, raised) =
       (case loads message_str of
          Inl e \<Rightarrow> (w, Some e)
        | Inr message \<Rightarrow> (case onmessage of None \<Rightarrow> (w, None) | Some f \<Rightarrow> f message w))
     in case raised of
          None \<Rightarrow> (w1, None)
        | Some e \<Rightarrow>
            if exn_type e = ''JSONDecodeError''
            then (case onerror of None \<Rightarrow> (w1, None) | Some g \<Rightarrow> g e w1)
            else (w1, Some e))"

function process_buffer ::
    "(pystr \<Rightarrow> pyexn + 'm) \<Rightarrow> ('m, 'w) callback option \<Rightarrow> (pyexn, 'w) callback option
       \<Rightarrow> bytes \<times> 'w \<Rightarrow> (bytes \<times> 'w) \<times> pyexn option"
  and process_loop ::
    "(pystr \<Rightarrow> pyexn + 'm) \<Rightarrow> ('m, 'w) callback option \<Rightarrow> (pyexn, 'w) callback option
       \<Rightarrow> pystr \<Rightarrow> bytes \<times> 'w \<Rightarrow> (bytes \<times> 'w) \<times> pyexn option"
  where
  "process_buffer loads onmessage onerror (read_buffer, w) =
     process_loop loads onmessage onerror (utf8_decode read_buffer) (read_buffer, w)"
| "process_loop loads onmessage onerror buffer_str (read_buffer, w) =
     (case re_search buffer_str of
        None \<Rightarrow> ((read_buffer, w), None)
      | Some (content_length, header_end) \<Rightarrow>
          if length buffer_str < header_end + content_length then ((read_buffer, w), None)
          else
            let message_str = take content_length (drop header_end buffer_str);
                buffer_str' = drop (header_end + content_length) buffer_str
            in (case utf8_encode buffer_str' of
                  None \<Rightarrow> ((read_buffer, w), Some (PyExn ''UnicodeEncodeError'' []))
                | Some read_buffer' \<Rightarrow>
                    (case parse_and_dispatch loads onmessage onerror message_str w of
                       (w', Some e) \<Rightarrow> ((read_buffer', w'), Some e)
                     | (w', None) \<Rightarrow>
                         (case (if read_buffer' \<noteq> []
                                then process_buffer loads onmessage onerror (read_buffer', w')
                                else ((read_buffer', w'), None)) of
                            (st, Some e) \<Rightarrow> (st, Some e)
                          | (st, None) \<Rightarrow> process_loop loads onmessage onerror buffer_str' st))))"
  by pat_completeness auto
termination
  apply (relation "measure (\<lambda>x. case x of
            Inl (l, m, e, (b, w)) \<Rightarrow> 2 * length (utf8_decode b) + 1
          | Inr (l, m, e, s, st) \<Rightarrow> 2 * length s)")
  apply (auto dest!: re_search_end_pos utf8_roundtrip)
  done

declare process_buffer.simps [simp del] process_loop.simps [simp del]

section \<open>Messages and \<^verbatim>\<open>json.dumps\<close>\<close>

text \<open>
  The values \<^verbatim>\<open>json.loads\<close> returns and the server builds: \<^verbatim>\<open>None\<close>, booleans,
  integers, strings, lists and dictionaries with string keys, in insertion order (floats
  are left out).  \<open>json_dumps\<close> is \<^verbatim>\<open>json.dumps\<close> with its defaults: the separators
  \<^verbatim>\<open>', '\<close> and \<^verbatim>\<open>': '\<close>, and \<^verbatim>\<open>ensure_ascii\<close>, under which every character
  outside printable ASCII is written as an escape.
\<close>

datatype json = JNull | JBool bool | JInt int | JStr string | JList "json list"
  | JDict "(string \<times> json) list"

definition str_of :: "string \<Rightarrow> pystr" where
  "str_of s = map of_char s"

definition str_int :: "int \<Rightarrow> pystr" where
  "str_int i = (if i < 0 then 45 # str_nat (nat (- i)) else str_nat (nat i))"

definition hex_digit :: "nat \<Rightarrow> nat" where
  "hex_digit d = (if d < 10 then 48 + d else 87 + d)"

definition escape_char :: "char \<Rightarrow> pystr" where
  "escape_char c =
    (let n = (of_char c :: nat) in
     if n = 0x22 then [0x5C, 0x22]
     else if n = 0x5C then [0x5C, 0x5C]
     else if n = 8 then [0x5C, 0x62]
     else if n = 12 then [0x5C, 0x66]
     else if n = 10 then [0x5C, 0x6E]
     else if n = 13 then [0x5C, 0x72]
     else if n = 9 then [0x5C, 0x74]
     else if 0x20 \<le> n \<and> n \<le> 0x7E then [n]
     else [0x5C, 0x75, hex_digit (n div 4096 mod 16), hex_digit (n div 256 mod 16),
           hex_digit (n div 16 mod 16), hex_digit (n mod 16)])"

definition encode_basestring_ascii :: "string \<Rightarrow> pystr" where
  "encode_basestring_ascii s = [0x22] @ concat (map escape_char s) @ [0x22]"

fun join :: "pystr \<Rightarrow> pystr list \<Rightarrow> pystr" where
  "join sep [] = []"
| "join sep [x] = x"
| "join sep (x # y # xs) = x @ sep @ join sep (y # xs)"

fun json_dumps :: "json \<Rightarrow> pystr" where
  "json_dumps JNull = str_of ''null''"
| "json_dumps (JBool b) = (if b then str_of ''true'' else str_of ''false'')"
| "json_dumps (JInt i) = str_int i"
| "json_dumps (JStr s) = encode_basestring_ascii s"
| "json_dumps (JList xs) = str_of ''['' @ join (str_of '', '') (map json_dumps xs) @ str_of '']''"
| "json_dumps (JDict kvs) =
     str_of ''{'' @ join (str_of '', '')
        (map (\<lambda>(k, v). encode_basestring_ascii k @ str_of '': '' @ json_dumps v) kvs) @ str_of ''}''"


section \<open>The transport: \<^verbatim>\<open>start\<close> and \<^verbatim>\<open>send\<close>\<close>

text \<open>
  The part of a \<^verbatim>\<open>StdioTransport\<close> that \<^verbatim>\<open>start\<close> and \<^verbatim>\<open>send\<close> use: the flag
  \<^verbatim>\<open>_started\<close>, the event \<^verbatim>\<open>_closed\<close>, and the chunks written to the output stream,
  one per \<^verbatim>\<open>write\<close>.  \<open>frame\<close> is the f-string
  \<^verbatim>\<open>f"Content-Length: {len(content)}\r\n\r\n{content}"\<close>.
\<close>

record stdio_transport =
  started :: bool
  closed :: bool
  stdout :: "bytes list"

definition start :: "stdio_transport \<Rightarrow> stdio_transport" where
  "start t = (if started t then t else t\<lparr>started := True, closed := False\<rparr>)"

definition frame :: "pystr \<Rightarrow> pystr" where
  "frame content = header_name @ str_nat (length content) @ crlf_crlf @ content"

definition send :: "json \<Rightarrow> stdio_transport \<Rightarrow> stdio_transport \<times> pyexn option" where
  "send message t =
    (if \<not> started t then (t, Some (PyExn ''RuntimeError'' ''Transport not started''))
     else
       let content = json_dumps message;
           data = frame content
       in (case utf8_encode data of
             None \<Rightarrow> (t, Some (PyExn ''UnicodeEncodeError'' []))
           | Some b \<Rightarrow> (t\<lparr>stdout := stdout t @ [b]\<rparr>, None)))"

section \<open>The dispatcher: \<^verbatim>\<open>McpServer\<close>\<close>

text \<open>
  A handler takes the parameters and returns a result or raises an \<^verbatim>\<open>Exception\<close>
  (\<open>Inl\<close>).  A validator stands for a Pydantic model class: applied to the keyword
  arguments it raises \<^verbatim>\<open>ValidationError\<close> (\<open>Inl\<close>, with the text \<^verbatim>\<open>str(e)\<close>) or
  returns the \<^verbatim>\<open>model_dump()\<close> of the validated model.

  The server's \<^verbatim>\<open>_tools\<close> is a dictionary in insertion order, an association list here;
  \<^verbatim>\<open>_handlers\<close> and \<^verbatim>\<open>_validator_models\<close> are maps.  \<open>transport\<close> is the transport
  the server is connected to, \<open>None\<close> before \<^verbatim>\<open>connect\<close>.  The field \<open>calls\<close> is not
  in the source: it records every handler call the dispatcher makes (method and argument),
  so that theorems can say that a handler was or was not called.

  \<open>ping_response\<close>, \<open>error_response\<close> and \<open>success_response\<close> are the dictionaries
  \<^verbatim>\<open>_respond_to_ping\<close>, \<^verbatim>\<open>_send_error\<close> and \<^verbatim>\<open>_handle_request\<close> build.
  \<open>call_handler\<close> is the \<^verbatim>\<open>try\<close> statement at the end of \<^verbatim>\<open>_handle_request\<close>.
  \<^verbatim>\<open>method not in self._tools\<close> raises \<^verbatim>\<open>TypeError\<close> for a list or a dictionary,
  which cannot be hashed, and \<^verbatim>\<open>validator_model(**params)\<close> raises it when
  \<^verbatim>\<open>params\<close> is no dictionary; neither is caught.  A message that is no dictionary has
  no \<^verbatim>\<open>get\<close>.
\<close>

type_synonym handler = "json \<Rightarrow> pyexn + json"
type_synonym validator = "(string \<times> json) list \<Rightarrow> string + json"

record server =
  name :: string
  version :: string
  transport :: "stdio_transport option"
  tools :: "(string \<times> json) list"
  handlers :: "string \<rightharpoonup> handler"
  validator_models :: "string \<rightharpoonup> validator"
  calls :: "(string \<times> json) list"

definition McpServer :: "string \<Rightarrow> string \<Rightarrow> server" where
  "McpServer n v =
    \<lparr>name = n, version = v, transport = None, tools = [], handlers = Map.empty,
     validator_models = Map.empty, calls = []\<rparr>"

definition tool ::
  "server \<Rightarrow> string \<Rightarrow> string \<Rightarrow> json \<Rightarrow> handler \<Rightarrow> validator option \<Rightarrow> server" where
  "tool srv method description schema handler validator_model =
    (let srv1 = srv\<lparr>tools := AList.update method
                          (JDict [(''description'', JStr description), (''parameters'', schema)])
                          (tools srv),
                       handlers := (handlers srv)(method \<mapsto> handler)\<rparr>
     in case validator_model of
          None \<Rightarrow> srv1
        | Some v \<Rightarrow> srv1\<lparr>validator_models := (validator_models srv1)(method \<mapsto> v)\<rparr>)"

definition connect :: "server \<Rightarrow> stdio_transport \<Rightarrow> server" where
  "connect srv t = srv\<lparr>transport := Some (start t)\<rparr>"

definition transport_send :: "server \<Rightarrow> json \<Rightarrow> server \<times> pyexn option" where
  "transport_send srv response =
    (case transport srv of
       None \<Rightarrow> (srv, Some (PyExn ''AttributeError''
                  (CHR 0x27 # ''NoneType'' @ CHR 0x27 # '' object has no attribute ''
                    @ CHR 0x27 # ''send'' @ [CHR 0x27])))
     | Some t \<Rightarrow> (case send response t of (t', r) \<Rightarrow> (srv\<lparr>transport := Some t'\<rparr>, r)))"

definition dict_get :: "(string \<times> json) list \<Rightarrow> string \<Rightarrow> json" where
  "dict_get d k = (case map_of d k of None \<Rightarrow> JNull | Some v \<Rightarrow> v)"

definition ping_response :: "server \<Rightarrow> (string \<times> json) list \<Rightarrow> json" where
  "ping_response srv message =
    JDict [(''id'', dict_get message ''id''),
           (''type'', JStr ''response''),
           (''status'', JStr ''success''),
           (''result'', JDict [(''id'', dict_get message ''id''),
                               (''name'', JStr (name srv)),
                               (''version'', JStr (version srv)),
                               (''capabilities'', JList (map (\<lambda>kv. JStr (fst kv)) (tools srv)))])]"

definition respond_to_ping :: "server \<Rightarrow> (string \<times> json) list \<Rightarrow> server \<times> pyexn option" where
  "respond_to_ping srv message = transport_send srv (ping_response srv message)"

definition error_response :: "json \<Rightarrow> int \<Rightarrow> string \<Rightarrow> string option \<Rightarrow> json" where
  "error_response request_id code message data =
    JDict [(''id'', request_id),
           (''type'', JStr ''response''),
           (''status'', JStr ''error''),
           (''error'', JDict ([(''code'', JInt code), (''message'', JStr message)]
                              @ (case data of None \<Rightarrow> [] | Some d \<Rightarrow> [(''data'', JStr d)])))]"

definition send_error ::
  "server \<Rightarrow> json \<Rightarrow> int \<Rightarrow> string \<Rightarrow> string option \<Rightarrow> server \<times> pyexn option" where
  "send_error srv request_id code message data =
     transport_send srv (error_response request_id code message data)"

definition success_response :: "json \<Rightarrow> json \<Rightarrow> json" where
  "success_response request_id result =
    JDict [(''id'', request_id),
           (''type'', JStr ''response''),
           (''status'', JStr ''success''),
           (''result'', result)]"

definition hashable :: "json \<Rightarrow> bool" where
  "hashable v = (case v of JList xs \<Rightarrow> False | JDict kvs \<Rightarrow> False | _ \<Rightarrow> True)"

definition py_str :: "json \<Rightarrow> string" where
  "py_str v =
    (case v of
       JStr s \<Rightarrow> s
     | JNull \<Rightarrow> ''None''
     | JBool b \<Rightarrow> (if b then ''True'' else ''False'')
     | JInt i \<Rightarrow> map char_of (str_int i)
     | _ \<Rightarrow> [])"

definition method_in_tools :: "json \<Rightarrow> server \<Rightarrow> bool" where
  "method_in_tools method srv =
    (case method of JStr m \<Rightarrow> map_of (tools srv) m \<noteq> None | _ \<Rightarrow> False)"

definition call_handler :: "server \<Rightarrow> json \<Rightarrow> string \<Rightarrow> json \<Rightarrow> server \<times> pyexn option" where
  "call_handler srv request_id m params =
    (case handlers srv m of
       None \<Rightarrow> send_error srv request_id (- 32603) ''Internal error''
                 (Some (CHR 0x27 # m @ [CHR 0x27]))
     | Some handler \<Rightarrow>
         let srv1 = srv\<lparr>calls := calls srv @ [(m, params)]\<rparr> in
         (case handler params of
            Inl e \<Rightarrow> send_error srv1 request_id (- 32603) ''Internal error'' (Some (exn_text e))
          | Inr result \<Rightarrow>
              (case transport_send srv1 (success_response request_id result) of
                 (srv2, None) \<Rightarrow> (srv2, None)
               | (srv2, Some e) \<Rightarrow>
                   send_error srv2 request_id (- 32603) ''Internal error'' (Some (exn_text e)))))"

definition request_params :: "(string \<times> json) list \<Rightarrow> json" where
  "request_params message = (case map_of message ''params'' of None \<Rightarrow> JDict [] | Some p \<Rightarrow> p)"

definition handle_request :: "server \<Rightarrow> (string \<times> json) list \<Rightarrow> server \<times> pyexn option" where
  "handle_request srv message =
    (let request_id = dict_get message ''id'';
         method = dict_get message ''method'';
         params = request_params message
     in if \<not> hashable method then (srv, Some (PyExn ''TypeError'' ''unhashable type''))
        else if \<not> method_in_tools method srv then
          send_error srv request_id (- 32601) ''Method not found''
            (Some (''Method '' @ CHR 0x27 # py_str method @ CHR 0x27 # '' not found''))
        else
          let m = py_str method in
          (case validator_models srv m of
             None \<Rightarrow> call_handler srv request_id m params
           | Some validator_model \<Rightarrow>
               (case params of
                  JDict kwargs \<Rightarrow>
                    (case validator_model kwargs of
                       Inl e \<Rightarrow> send_error srv request_id (- 32602) ''Invalid params'' (Some e)
                     | Inr dumped \<Rightarrow> call_handler srv request_id m dumped)
                | _ \<Rightarrow> (srv, Some (PyExn ''TypeError'' ''argument after ** must be a mapping'')))))"

definition handle_message :: "json \<Rightarrow> server \<Rightarrow> server \<times> pyexn option" where
  "handle_message message srv =
    (case message of
       JDict d \<Rightarrow>
         if dict_get d ''type'' = JStr ''ping'' then respond_to_ping srv d
         else if dict_get d ''type'' = JStr ''request'' then handle_request srv d
         else (srv, None)
     | _ \<Rightarrow> (srv, Some (PyExn ''AttributeError'' ''object has no attribute get'')))"

section \<open>The PayPal server\<close>

text \<open>
  \<open>get_tools\<close> is the catalogue of \<^verbatim>\<open>tools/definitions.py\<close>.  The prompt texts and the
  Pydantic classes are parameters, looked up by the names the source uses; a class is given
  by its schema and its validator.  Of the configuration only the \<^verbatim>\<open>actions\<close> entry
  matters here (\<open>None\<close> when the key is absent).  \<open>run\<close> stands for
  \<^verbatim>\<open>PayPalClient.run\<close>, which catches every exception of the API call and returns a JSON
  text in either case.
\<close>

record param_model =
  schema :: json
  validate :: validator

datatype Tool = Tool (tool_method: string) (tool_name: string) (description: string)
  (parameters: param_model) (actions: "(string \<times> (string \<times> bool) list) list")

definition get_tools :: "(string \<Rightarrow> string) \<Rightarrow> (string \<Rightarrow> param_model) \<Rightarrow> Tool list" where
  "get_tools prompt model =
    [
     Tool ''create_invoice'' ''Create Invoice'' (prompt ''create_invoice_prompt'') (model ''CreateInvoiceParameters'')
       [(''invoices'', [(''create'', True)])],
     Tool ''list_invoices'' ''List Invoices'' (prompt ''list_invoices_prompt'') (model ''ListInvoicesParameters'')
       [(''invoices'', [(''list'', True)])],
     Tool ''get_invoice'' ''Get Invoice'' (prompt ''get_invoice_prompt'') (model ''GetInvoiceParameters'')
       [(''invoices'', [(''get'', True)])],
     Tool ''send_invoice'' ''Send Invoice'' (prompt ''send_invoice_prompt'') (model ''SendInvoiceParameters'')
       [(''invoices'', [(''send'', True)])],
     Tool ''send_invoice_reminder'' ''Send Invoice Reminder'' (prompt ''send_invoice_reminder_prompt'') (model ''SendInvoiceReminderParameters'')
       [(''invoices'', [(''sendReminder'', True)])],
     Tool ''cancel_sent_invoice'' ''Cancel Sent Invoice'' (prompt ''cancel_sent_invoice_prompt'') (model ''CancelSentInvoiceParameters'')
       [(''invoices'', [(''cancel'', True)])],
     Tool ''generate_invoice_qr_code'' ''Generate Invoice QR Code'' (prompt ''generate_invoice_qr_code_prompt'') (model ''GenerateInvoiceQrCodeParameters'')
       [(''invoices'', [(''generateQRC'', True)])],
     Tool ''create_product'' ''Create Product'' (prompt ''create_product_prompt'') (model ''CreateProductParameters'')
       [(''products'', [(''create'', True)])],
     Tool ''list_products'' ''List Products'' (prompt ''list_products_prompt'') (model ''ListProductsParameters'')
       [(''products'', [(''list'', True)])],
     Tool ''update_product'' ''Update Product'' (prompt ''update_product_prompt'') (model ''UpdateProductParameters'')
       [(''products'', [(''update'', True)])],
     Tool ''show_product_details'' ''Show Product Details'' (prompt ''show_product_details_prompt'') (model ''ShowProductDetailsParameters'')
       [(''products'', [(''show'', True)])],
     Tool ''create_subscription_plan'' ''Create Subscription Plan'' (prompt ''create_subscription_plan_prompt'') (model ''CreateSubscriptionPlanParameters'')
       [(''subscriptionPlans'', [(''create'', True)])],
     Tool ''list_subscription_plans'' ''List Subscription Plans'' (prompt ''list_subscription_plans_prompt'') (model ''ListSubscriptionPlansParameters'')
       [(''subscriptionPlans'', [(''list'', True)])],
     Tool ''show_subscription_plan_details'' ''Show Subscription Plan Details'' (prompt ''show_subscription_plan_details_prompt'') (model ''ShowSubscriptionPlanDetailsParameters'')
       [(''subscriptionPlans'', [(''show'', True)])],
     Tool ''create_subscription'' ''Create Subscription'' (prompt ''create_subscription_prompt'') (model ''CreateSubscriptionParameters'')
       [(''subscriptions'', [(''create'', True)])],
     Tool ''show_subscription_details'' ''Show Subscription Details'' (prompt ''show_subscription_details_prompt'') (model ''ShowSubscriptionDetailsParameters'')
       [(''subscriptions'', [(''show'', True)])],
     Tool ''cancel_subscription'' ''Cancel Subscription'' (prompt ''cancel_subscription_prompt'') (model ''CancelSubscriptionParameters'')
       [(''subscriptions'', [(''cancel'', True)])],
     Tool ''create_shipment'' ''Create Shipment'' (prompt ''create_shipment_prompt'') (model ''CreateShipmentParameters'')
       [(''shipment'', [(''create'', True)])],
     Tool ''get_shipment_tracking'' ''Get Shipment Tracking'' (prompt ''get_shipment_tracking_prompt'') (model ''GetShipmentTrackingParameters'')
       [(''shipment'', [(''get'', True)])],
     Tool ''create_order'' ''Create Order'' (prompt ''create_order_prompt'') (model ''CreateOrderParameters'')
       [(''orders'', [(''create'', True)])],
     Tool ''get_order'' ''Get Order'' (prompt ''get_order_prompt'') (model ''GetOrderParameters'')
       [(''orders'', [(''get'', True)])],
     Tool ''capture_order'' ''Capture Order'' (prompt ''capture_order_prompt'') (model ''CaptureOrderParameters'')
       [(''orders'', [(''capture'', True)])],
     Tool ''list_disputes'' ''List Disputes'' (prompt ''list_disputes_prompt'') (model ''ListDisputesParameters'')
       [(''disputes'', [(''list'', True)])],
     Tool ''get_dispute'' ''Get Dispute'' (prompt ''get_dispute_prompt'') (model ''GetDisputeParameters'')
       [(''disputes'', [(''get'', True)])],
     Tool ''accept_dispute_claim'' ''Accept Dispute Claim'' (prompt ''accept_dispute_claim_prompt'') (model ''AcceptDisputeClaimParameters'')
       [(''disputes'', [(''create'', True)])],
     Tool ''list_transactions'' ''List Transactions'' (prompt ''list_transactions_prompt'') (model ''ListTransactionsParameters'')
       [(''transactions'', [(''list'', True)])]
    ]"

record configuration =
  cfg_actions :: "(string \<rightharpoonup> (string \<rightharpoonup> bool)) option"

definition is_tool_allowed :: "Tool \<Rightarrow> configuration \<Rightarrow> bool" where
  "is_tool_allowed t configuration =
    (let acts = (case cfg_actions configuration of None \<Rightarrow> Map.empty | Some a \<Rightarrow> a) in
     list_ex (\<lambda>(product, product_actions).
        list_ex (\<lambda>(action, enabled).
           (case acts product of
              None \<Rightarrow> False
            | Some entry \<Rightarrow> (case entry action of None \<Rightarrow> False | Some v \<Rightarrow> v)))
          product_actions)
       (actions t))"

definition create_handler :: "(string \<Rightarrow> json \<Rightarrow> string) \<Rightarrow> Tool \<Rightarrow> handler" where
  "create_handler run t =
    (\<lambda>params. Inr (JDict [(''content'',
        JList [JDict [(''type'', JStr ''text''), (''text'', JStr (run (tool_method t) params))]])]))"

fun register_tools ::
  "(string \<Rightarrow> json \<Rightarrow> string) \<Rightarrow> configuration \<Rightarrow> Tool list \<Rightarrow> server \<Rightarrow> server" where
  "register_tools run configuration [] srv = srv"
| "register_tools run configuration (t # all_tools) srv =
    register_tools run configuration all_tools
      (if is_tool_allowed t configuration
       then tool srv (tool_method t) (description t) (schema (parameters t)) (create_handler run t)
              (Some (validate (parameters t)))
       else srv)"

definition PayPalMcpServer ::
  "(string \<Rightarrow> string) \<Rightarrow> (string \<Rightarrow> param_model) \<Rightarrow> (string \<Rightarrow> json \<Rightarrow> string)
     \<Rightarrow> configuration \<Rightarrow> server" where
  "PayPalMcpServer prompt model run configuration =
     register_tools run configuration (get_tools prompt model) (McpServer ''PayPal'' ''0.4.0'')"

section \<open>The dispatcher: messages that are neither pings nor requests\<close>

text \<open>
  Claim C9.  A message whose \<^verbatim>\<open>type\<close> entry is neither \<^verbatim>\<open>"ping"\<close> nor
  \<^verbatim>\<open>"request"\<close> (an absent entry reads as \<^verbatim>\<open>None\<close>) is ignored by
  \<^verbatim>\<open>_handle_message\<close>: the server, its transport's output and its record of handler
  calls are unchanged, and no exception is raised.
\<close>

theorem other_message_types_ignored:
  assumes "dict_get d ''type'' \<noteq> JStr ''ping''"
    and "dict_get d ''type'' \<noteq> JStr ''request''"
  shows "handle_message (JDict d) srv = (srv, None)"
  using assms by (simp add: handle_message_def)

theorem other_message_types_ignored_witness:
  "handle_message (JDict [(''id'', JInt 7), (''type'', JStr ''notification'')])
       (connect (McpServer ''PayPal'' ''0.4.0'') \<lparr>started = False, closed = False, stdout = []\<rparr>)
     = (connect (McpServer ''PayPal'' ''0.4.0'') \<lparr>started = False, closed = False, stdout = []\<rparr>, None)
   \<and> handle_message (JDict [(''id'', JInt 8)])
       (connect (McpServer ''PayPal'' ''0.4.0'') \<lparr>started = False, closed = False, stdout = []\<rparr>)
     = (connect (McpServer ''PayPal'' ''0.4.0'') \<lparr>started = False, closed = False, stdout = []\<rparr>, None)"
  using other_message_types_ignored [of "[(''id'', JInt 7), (''type'', JStr ''notification'')]"]
        other_message_types_ignored [of "[(''id'', JInt 8)]"]
  by (simp add: dict_get_def)

section \<open>What \<^verbatim>\<open>send\<close> writes\<close>

text \<open>
  \<^verbatim>\<open>json.dumps\<close> escapes everything outside printable ASCII, so the text of a framed
  message is ASCII, its UTF-8 encoding has one byte per character and never fails.
\<close>

definition ascii :: "pystr \<Rightarrow> bool" where
  "ascii s = list_all (\<lambda>c. c < 128) s"

lemma ascii_simps [simp]:
  "ascii []" "ascii (c # s) \<longleftrightarrow> c < 128 \<and> ascii s" "ascii (s @ t) \<longleftrightarrow> ascii s \<and> ascii t"
  by (auto simp: ascii_def)

lemma ascii_str_of_literals [simp]:
  "ascii (str_of ''null'')" "ascii (str_of ''true'')" "ascii (str_of ''false'')"
  "ascii (str_of ''['')" "ascii (str_of '']'')" "ascii (str_of ''{'')" "ascii (str_of ''}'')"
  "ascii (str_of '', '')" "ascii (str_of '': '')"
  by (simp_all add: str_of_def)

lemma ascii_str_nat [simp]: "ascii (str_nat n)"
proof (induction n rule: str_nat.induct)
  case (1 n)
  show ?case
  proof (cases "n < 10")
    case True
    then show ?thesis by (subst str_nat.simps) simp
  next
    case False
    have "n mod 10 < 10" by simp
    then have "48 + n mod 10 < 128" by linarith
    with False 1 show ?thesis by (subst str_nat.simps) simp
  qed
qed

lemma ascii_str_int [simp]: "ascii (str_int i)"
  by (simp add: str_int_def)

lemma hex_digit_ascii: "d < 16 \<Longrightarrow> hex_digit d < 128"
  by (simp add: hex_digit_def)

lemma ascii_escape_char [simp]: "ascii (escape_char c)"
  by (simp add: escape_char_def Let_def hex_digit_ascii)

lemma ascii_concat: "(\<And>x. x \<in> set xs \<Longrightarrow> ascii x) \<Longrightarrow> ascii (concat xs)"
  by (induction xs) auto

lemma ascii_encode_basestring [simp]: "ascii (encode_basestring_ascii s)"
  by (auto simp: encode_basestring_ascii_def intro!: ascii_concat)

lemma ascii_join: "ascii sep \<Longrightarrow> (\<And>x. x \<in> set xs \<Longrightarrow> ascii x) \<Longrightarrow> ascii (join sep xs)"
  by (induction sep xs rule: join.induct) auto

lemma ascii_json_dumps [simp]: "ascii (json_dumps v)"
proof (induction v)
  case (JList xs)
  then show ?case by (auto intro!: ascii_join)
next
  case (JDict kvs)
  have "ascii (encode_basestring_ascii k @ str_of '': '' @ json_dumps v)"
    if "(k, v) \<in> set kvs" for k v
    using JDict [of "(k, v)" v] that by simp
  then show ?case by (auto intro!: ascii_join)
qed simp_all

lemma ascii_frame [simp]: "ascii content \<Longrightarrow> ascii (frame content)"
  by (simp add: frame_def header_name_def crlf_crlf_def)

lemma utf8_encode_ascii: "ascii s \<Longrightarrow> utf8_encode s = Some (map char_of s)"
  by (induction s) (auto simp: encode_char_def)

text \<open>
  \<open>wire message\<close> is the chunk of bytes that holds one framed message.
\<close>

definition wire :: "json \<Rightarrow> bytes" where
  "wire message = map char_of (frame (json_dumps message))"

lemma send_started:
  "started t \<Longrightarrow> send message t = (t\<lparr>stdout := stdout t @ [wire message]\<rparr>, None)"
  by (simp add: send_def wire_def utf8_encode_ascii)

lemma utf8_decode_ascii: "ascii s \<Longrightarrow> utf8_decode (map char_of s) = s"
  using utf8_roundtrip [OF utf8_encode_ascii] .

section \<open>Example parameter models, configuration and server\<close>

text \<open>
  Two of the classes of \<^verbatim>\<open>tools/parameters.py\<close>, as Pydantic validates JSON input for
  them: a required \<^verbatim>\<open>str\<close> field must be present and a string, an
  \<^verbatim>\<open>Optional[str]\<close> field may be absent or \<^verbatim>\<open>None\<close> and is then dumped as
  \<^verbatim>\<open>None\<close>, unknown entries are dropped.  The error text keeps the lines of
  \<^verbatim>\<open>str(ValidationError)\<close> that name the model, the field and the problem.  They serve
  as concrete inputs; the theorems hold for any model.
\<close>

definition optional_str :: "(string \<times> json) list \<Rightarrow> string \<Rightarrow> json option" where
  "optional_str kwargs field =
    (case map_of kwargs field of
       None \<Rightarrow> Some JNull
     | Some JNull \<Rightarrow> Some JNull
     | Some (JStr s) \<Rightarrow> Some (JStr s)
     | Some _ \<Rightarrow> None)"

definition validation_error :: "string \<Rightarrow> string \<Rightarrow> string \<Rightarrow> string" where
  "validation_error model field problem =
     ''1 validation error for '' @ model @ [CHR 0x0A] @ field @ [CHR 0x0A] @ ''  '' @ problem"

definition GetInvoiceParameters :: param_model where
  "GetInvoiceParameters =
    \<lparr>schema = JDict [(''title'', JStr ''GetInvoiceParameters''), (''type'', JStr ''object''),
                     (''required'', JList [JStr ''invoice_id''])],
     validate = (\<lambda>kwargs.
        case map_of kwargs ''invoice_id'' of
          None \<Rightarrow> Inl (validation_error ''GetInvoiceParameters'' ''invoice_id'' ''Field required'')
        | Some (JStr s) \<Rightarrow> Inr (JDict [(''invoice_id'', JStr s)])
        | Some _ \<Rightarrow> Inl (validation_error ''GetInvoiceParameters'' ''invoice_id''
                          ''Input should be a valid string''))\<rparr>"

definition GetShipmentTrackingParameters :: param_model where
  "GetShipmentTrackingParameters =
    \<lparr>schema = JDict [(''title'', JStr ''GetShipmentTrackingParameters''), (''type'', JStr ''object'')],
     validate = (\<lambda>kwargs.
        case optional_str kwargs ''order_id'' of
          None \<Rightarrow> Inl (validation_error ''GetShipmentTrackingParameters'' ''order_id''
                       ''Input should be a valid string'')
        | Some order_id \<Rightarrow>
            (case optional_str kwargs ''transaction_id'' of
               None \<Rightarrow> Inl (validation_error ''GetShipmentTrackingParameters'' ''transaction_id''
                            ''Input should be a valid string'')
             | Some transaction_id \<Rightarrow>
                 Inr (JDict [(''order_id'', order_id), (''transaction_id'', transaction_id)])))\<rparr>"

definition example_models :: "string \<Rightarrow> param_model" where
  "example_models cls =
    (if cls = ''GetInvoiceParameters'' then GetInvoiceParameters
     else if cls = ''GetShipmentTrackingParameters'' then GetShipmentTrackingParameters
     else \<lparr>schema = JDict [], validate = (\<lambda>kwargs. Inr (JDict kwargs))\<rparr>)"

definition example_configuration :: configuration where
  "example_configuration =
    \<lparr>cfg_actions = Some [''invoices'' \<mapsto> [''list'' \<mapsto> True, ''get'' \<mapsto> True],
                         ''shipment'' \<mapsto> [''get'' \<mapsto> True],
                         ''orders'' \<mapsto> [''create'' \<mapsto> True, ''capture'' \<mapsto> False]]\<rparr>"

definition example_server :: "(string \<Rightarrow> json \<Rightarrow> string) \<Rightarrow> server" where
  "example_server run =
     connect (PayPalMcpServer (\<lambda>p. p) example_models run example_configuration)
       \<lparr>started = False, closed = False, stdout = []\<rparr>"

section \<open>Registering a method name twice\<close>

lemma tool_tools:
  "tools (tool srv m d s h v) =
     AList.update m (JDict [(''description'', JStr d), (''parameters'', s)]) (tools srv)"
  by (simp add: tool_def Let_def split: option.splits)

lemma tool_handlers: "handlers (tool srv m d s h v) = (handlers srv)(m \<mapsto> h)"
  by (simp add: tool_def Let_def split: option.splits)

lemma tool_validator_models:
  "validator_models (tool srv m d s h v) =
     (case v of None \<Rightarrow> validator_models srv | Some f \<Rightarrow> (validator_models srv)(m \<mapsto> f))"
  by (simp add: tool_def Let_def split: option.splits)

lemma tool_other_fields:
  "name (tool srv m d s h v) = name srv" "version (tool srv m d s h v) = version srv"
  "transport (tool srv m d s h v) = transport srv" "calls (tool srv m d s h v) = calls srv"
  by (simp_all add: tool_def Let_def split: option.splits)

text \<open>
  Claim C7 says that registering under a method name already in use is rejected and never
  overwrites.  \<^verbatim>\<open>McpServer.tool\<close> has no such check: it assigns
  \<^verbatim>\<open>self._tools[method]\<close> and \<^verbatim>\<open>self._handlers[method]\<close> unconditionally.  Registering
  \<^verbatim>\<open>echo\<close> twice leaves the second description and the second handler in place.
\<close>

theorem reregistration_overwrites_counterexample:
  "map_of (tools (tool (tool (McpServer ''demo'' ''1'') ''echo'' ''first'' JNull (\<lambda>p. Inr p) None)
                    ''echo'' ''second'' JNull (\<lambda>p. Inr JNull) None)) ''echo''
     = Some (JDict [(''description'', JStr ''second''), (''parameters'', JNull)])
   \<and> map_of (tools (tool (McpServer ''demo'' ''1'') ''echo'' ''first'' JNull (\<lambda>p. Inr p) None)) ''echo''
     = Some (JDict [(''description'', JStr ''first''), (''parameters'', JNull)])
   \<and> the (handlers (tool (tool (McpServer ''demo'' ''1'') ''echo'' ''first'' JNull (\<lambda>p. Inr p) None)
                    ''echo'' ''second'' JNull (\<lambda>p. Inr JNull) None) ''echo'') (JInt 5) = Inr JNull
   \<and> the (handlers (tool (McpServer ''demo'' ''1'') ''echo'' ''first'' JNull (\<lambda>p. Inr p) None) ''echo'')
         (JInt 5) = Inr (JInt 5)"
  by (simp add: tool_tools tool_handlers McpServer_def)

text \<open>
  Claim C7, amended.  Registering under a method name that is already registered raises
  nothing and replaces the description, the schema and the handler of that name in place:
  the list of method names is the same, in the same order.  The validator is replaced when
  a new one is given and kept otherwise.  Every other method keeps its entry, handler and
  validator.
\<close>

theorem reregistration_replaces_in_place:
  assumes "map_of (tools srv) m \<noteq> None"
  shows "map fst (tools (tool srv m d s h v)) = map fst (tools srv)
    \<and> map_of (tools (tool srv m d s h v)) m
        = Some (JDict [(''description'', JStr d), (''parameters'', s)])
    \<and> handlers (tool srv m d s h v) m = Some h
    \<and> validator_models (tool srv m d s h v) m
        = (case v of None \<Rightarrow> validator_models srv m | Some f \<Rightarrow> Some f)
    \<and> (\<forall>m'. m' \<noteq> m \<longrightarrow>
          map_of (tools (tool srv m d s h v)) m' = map_of (tools srv) m'
        \<and> handlers (tool srv m d s h v) m' = handlers srv m'
        \<and> validator_models (tool srv m d s h v) m' = validator_models srv m')"
proof -
  from assms have "m \<in> fst ` set (tools srv)"
    by (simp add: map_of_eq_None_iff)
  then have "map fst (tools (tool srv m d s h v)) = map fst (tools srv)"
    by (simp add: tool_tools update_keys)
  then show ?thesis
    by (auto simp: tool_tools tool_handlers tool_validator_models update_conv' split: option.splits)
qed

theorem reregistration_replaces_in_place_witness:
  "map_of (tools (tool (McpServer ''demo'' ''1'') ''echo'' ''first'' JNull (\<lambda>p. Inr p) None)) ''echo'' \<noteq> None
   \<and> map fst (tools (tool (tool (McpServer ''demo'' ''1'') ''echo'' ''first'' JNull (\<lambda>p. Inr p) None)
                    ''echo'' ''second'' JNull (\<lambda>p. Inr JNull) None)) = [''echo'']
   \<and> handlers (tool (tool (McpServer ''demo'' ''1'') ''echo'' ''first'' JNull (\<lambda>p. Inr p) None)
                    ''echo'' ''second'' JNull (\<lambda>p. Inr JNull) None) ''echo'' = Some (\<lambda>p. Inr JNull)"
proof -
  have reg: "map_of (tools (tool (McpServer ''demo'' ''1'') ''echo'' ''first'' JNull (\<lambda>p. Inr p) None)) ''echo'' \<noteq> None"
    by (simp add: tool_tools McpServer_def)
  from reregistration_replaces_in_place [OF reg, of "''second''" JNull "\<lambda>p. Inr JNull" None] reg
  show ?thesis by (simp add: tool_tools McpServer_def)
qed

section \<open>The registry the PayPal server builds\<close>

text \<open>
  The methods of the allowed tools, in the order of the catalogue.
\<close>

definition enabled_methods ::
  "(string \<Rightarrow> string) \<Rightarrow> (string \<Rightarrow> param_model) \<Rightarrow> configuration \<Rightarrow> string list" where
  "enabled_methods prompt model configuration =
     map tool_method (filter (\<lambda>t. is_tool_allowed t configuration) (get_tools prompt model))"

lemma get_tools_methods:
  "map tool_method (get_tools prompt model) =
    [''create_invoice'', ''list_invoices'', ''get_invoice'', ''send_invoice'',
     ''send_invoice_reminder'', ''cancel_sent_invoice'', ''generate_invoice_qr_code'',
     ''create_product'', ''list_products'', ''update_product'', ''show_product_details'',
     ''create_subscription_plan'', ''list_subscription_plans'',
     ''show_subscription_plan_details'', ''create_subscription'',
     ''show_subscription_details'', ''cancel_subscription'', ''create_shipment'',
     ''get_shipment_tracking'', ''create_order'', ''get_order'', ''capture_order'',
     ''list_disputes'', ''get_dispute'', ''accept_dispute_claim'', ''list_transactions'']"
  by (simp add: get_tools_def)

lemma get_tools_distinct: "distinct (map tool_method (get_tools prompt model))"
  unfolding get_tools_methods by simp

lemma register_tools_keys:
  assumes "distinct (map tool_method ts)"
    and "set (map tool_method ts) \<inter> fst ` set (tools srv) = {}"
  shows "map fst (tools (register_tools run cfg ts srv)) =
           map fst (tools srv) @ map tool_method (filter (\<lambda>t. is_tool_allowed t cfg) ts)"
  using assms
proof (induction ts arbitrary: srv)
  case Nil
  then show ?case by simp
next
  case (Cons t ts)
  show ?case
  proof (cases "is_tool_allowed t cfg")
    case True
    let ?srv = "tool srv (tool_method t) (description t) (schema (parameters t))
                  (create_handler run t) (Some (validate (parameters t)))"
    have keys: "map fst (tools ?srv) = map fst (tools srv) @ [tool_method t]"
      using Cons.prems by (auto simp: tool_tools update_keys)
    then have "fst ` set (tools ?srv) = insert (tool_method t) (fst ` set (tools srv))"
      by (metis Un_insert_right append_Nil2 list.simps(15) set_append set_map)
    with Cons.prems have "set (map tool_method ts) \<inter> fst ` set (tools ?srv) = {}"
      by auto
    with Cons.IH [of ?srv] Cons.prems keys True show ?thesis by simp
  next
    case False
    with Cons.IH [of srv] Cons.prems show ?thesis by auto
  qed
qed

lemma register_tools_fields:
  "name (register_tools run cfg ts srv) = name srv"
  "version (register_tools run cfg ts srv) = version srv"
  "transport (register_tools run cfg ts srv) = transport srv"
  "calls (register_tools run cfg ts srv) = calls srv"
  by (induction ts arbitrary: srv; simp add: tool_other_fields)+

lemma PayPalMcpServer_keys:
  "map fst (tools (PayPalMcpServer prompt model run cfg)) = enabled_methods prompt model cfg"
  using register_tools_keys [of "get_tools prompt model" "McpServer ''PayPal'' ''0.4.0''" run cfg]
    get_tools_distinct [of prompt model]
  by (simp add: PayPalMcpServer_def enabled_methods_def McpServer_def)

lemma PayPalMcpServer_fields:
  "name (PayPalMcpServer prompt model run cfg) = ''PayPal''"
  "version (PayPalMcpServer prompt model run cfg) = ''0.4.0''"
  "transport (PayPalMcpServer prompt model run cfg) = None"
  "calls (PayPalMcpServer prompt model run cfg) = []"
  by (simp_all add: PayPalMcpServer_def register_tools_fields McpServer_def)

section \<open>Requests for methods that are not registered\<close>

lemma transport_send_started:
  assumes "transport srv = Some t" and "started t"
  shows "transport_send srv r =
           (srv\<lparr>transport := Some (t\<lparr>stdout := stdout t @ [wire r]\<rparr>)\<rparr>, None)"
  using assms by (simp add: transport_send_def send_started)

lemma started_start [simp]: "started (start t)"
  by (simp add: start_def)

lemma stdout_start [simp]: "stdout (start t) = stdout t"
  by (simp add: start_def)

lemma connect_fields [simp]:
  "transport (connect srv t) = Some (start t)"
  "tools (connect srv t) = tools srv"
  "handlers (connect srv t) = handlers srv"
  "validator_models (connect srv t) = validator_models srv"
  "name (connect srv t) = name srv"
  "version (connect srv t) = version srv"
  "calls (connect srv t) = calls srv"
  by (simp_all add: connect_def)







text \<open>
  Reading an entry of a response: \<open>lookup j k\<close> is \<^verbatim>\<open>j.get(k)\<close> for a dictionary.
\<close>

definition lookup :: "json \<Rightarrow> string \<Rightarrow> json" where
  "lookup j k = (case j of JDict d \<Rightarrow> dict_get d k | _ \<Rightarrow> JNull)"

lemma ping_capabilities:
  "lookup (lookup (ping_response srv d) ''result'') ''capabilities''
     = JList (map JStr (map fst (tools srv)))"
  by (simp add: ping_response_def lookup_def dict_get_def)

lemma handle_ping:
  assumes "dict_get d ''type'' = JStr ''ping''"
    and "transport srv = Some t" and "started t"
  shows "handle_message (JDict d) srv =
     (srv\<lparr>transport := Some (t\<lparr>stdout := stdout t @ [wire (ping_response srv d)]\<rparr>)\<rparr>, None)"
  using assms by (simp add: handle_message_def respond_to_ping_def transport_send_started)



section \<open>Answering a ping\<close>

lemma example_enabled_methods:
  "enabled_methods prompt model example_configuration
     = [''list_invoices'', ''get_invoice'', ''get_shipment_tracking'', ''create_order'']"
  by (simp add: enabled_methods_def get_tools_def is_tool_allowed_def example_configuration_def)

lemma distinct_enabled_methods: "distinct (enabled_methods prompt model cfg)"
  unfolding enabled_methods_def
  using get_tools_distinct [of prompt model] by (simp add: distinct_map_filter)

text \<open>
  Claim C3 says that a ping reports the sorted enabled method names.
  \<^verbatim>\<open>_respond_to_ping\<close> reports \<^verbatim>\<open>list(self._tools.keys())\<close>, the names in the order
  of registration.  With invoice listing, invoice retrieval, shipment tracking and order creation enabled the
  reported list starts with \<^verbatim>\<open>list_invoices\<close> and is not the sorted one.
\<close>

theorem ping_capabilities_not_sorted_counterexample:
  "lookup (lookup (ping_response (example_server (\<lambda>m p. []))
                      [(''id'', JInt 4), (''type'', JStr ''ping'')]) ''result'') ''capabilities''
     = JList [JStr ''list_invoices'', JStr ''get_invoice'', JStr ''get_shipment_tracking'',
             JStr ''create_order'']
   \<and> sort (enabled_methods (\<lambda>p. p) example_models example_configuration)
     = [''create_order'', ''get_invoice'', ''get_shipment_tracking'', ''list_invoices'']
   \<and> lookup (lookup (ping_response (example_server (\<lambda>m p. []))
                      [(''id'', JInt 4), (''type'', JStr ''ping'')]) ''result'') ''capabilities''
     \<noteq> JList (map JStr (sort (enabled_methods (\<lambda>p. p) example_models example_configuration)))"
  by (simp add: ping_capabilities example_server_def PayPalMcpServer_keys example_enabled_methods)

text \<open>
  Claim C3, amended.  A ping is answered by exactly one response: a success that echoes the
  ping's id and whose result holds the id again, the server name \<^verbatim>\<open>PayPal\<close>, the version
  \<^verbatim>\<open>0.4.0\<close> and, as capabilities, the enabled method names, each once, in the order of
  the tool catalogue (the order of registration), which need not be sorted.
\<close>

theorem ping_reports_enabled_methods_in_catalogue_order:
  assumes "dict_get d ''type'' = JStr ''ping''"
  shows "handle_message (JDict d) (connect (PayPalMcpServer prompt model run cfg) t0) =
           ((connect (PayPalMcpServer prompt model run cfg) t0)
              \<lparr>transport := Some ((start t0)\<lparr>stdout := stdout t0 @
                 [wire (ping_response (connect (PayPalMcpServer prompt model run cfg) t0) d)]\<rparr>)\<rparr>,
            None)
    \<and> ping_response (connect (PayPalMcpServer prompt model run cfg) t0) d =
         JDict [(''id'', dict_get d ''id''),
                (''type'', JStr ''response''),
                (''status'', JStr ''success''),
                (''result'', JDict [(''id'', dict_get d ''id''),
                                    (''name'', JStr ''PayPal''),
                                    (''version'', JStr ''0.4.0''),
                                    (''capabilities'',
                                       JList (map JStr (enabled_methods prompt model cfg)))])]
    \<and> enabled_methods prompt model cfg =
         map tool_method (filter (\<lambda>t. is_tool_allowed t cfg) (get_tools prompt model))
    \<and> distinct (enabled_methods prompt model cfg)"
proof -
  have "map (\<lambda>kv. JStr (fst kv)) (tools (PayPalMcpServer prompt model run cfg))
          = map JStr (enabled_methods prompt model cfg)"
  proof -
    have "map (\<lambda>kv. JStr (fst kv)) xs = map JStr (map fst xs)" for xs :: "(string \<times> json) list"
      by simp
    then show ?thesis by (simp only: PayPalMcpServer_keys)
  qed
  then have "ping_response (connect (PayPalMcpServer prompt model run cfg) t0) d =
         JDict [(''id'', dict_get d ''id''),
                (''type'', JStr ''response''),
                (''status'', JStr ''success''),
                (''result'', JDict [(''id'', dict_get d ''id''),
                                    (''name'', JStr ''PayPal''),
                                    (''version'', JStr ''0.4.0''),
                                    (''capabilities'',
                                       JList (map JStr (enabled_methods prompt model cfg)))])]"
    by (simp add: ping_response_def PayPalMcpServer_fields)
  moreover have "handle_message (JDict d) (connect (PayPalMcpServer prompt model run cfg) t0) =
           ((connect (PayPalMcpServer prompt model run cfg) t0)
              \<lparr>transport := Some ((start t0)\<lparr>stdout := stdout t0 @
                 [wire (ping_response (connect (PayPalMcpServer prompt model run cfg) t0) d)]\<rparr>)\<rparr>,
            None)"
    using handle_ping [OF assms, of "connect (PayPalMcpServer prompt model run cfg) t0" "start t0"]
    by simp
  ultimately show ?thesis
    using distinct_enabled_methods [of prompt model cfg] by (simp add: enabled_methods_def)
qed

theorem ping_reports_enabled_methods_in_catalogue_order_witness:
  "handle_message (JDict [(''id'', JInt 4), (''type'', JStr ''ping'')]) (example_server (\<lambda>m p. [])) =
     ((example_server (\<lambda>m p. []))
        \<lparr>transport := Some \<lparr>started = True, closed = False, stdout =
           [wire (JDict [(''id'', JInt 4),
                (''type'', JStr ''response''),
                (''status'', JStr ''success''),
                (''result'', JDict [(''id'', JInt 4),
                                    (''name'', JStr ''PayPal''),
                                    (''version'', JStr ''0.4.0''),
                                    (''capabilities'',
                                       JList [JStr ''list_invoices'', JStr ''get_invoice'',
                                              JStr ''get_shipment_tracking'',
                                              JStr ''create_order''])])])]\<rparr>\<rparr>,
      None)"
  using ping_reports_enabled_methods_in_catalogue_order
    [of "[(''id'', JInt 4), (''type'', JStr ''ping'')]" "\<lambda>p. p" example_models "\<lambda>m p. []"
        example_configuration "\<lparr>started = False, closed = False, stdout = []\<rparr>"]
  by (simp add: example_server_def dict_get_def start_def example_enabled_methods)

section \<open>Validation and the handler call\<close>

text \<open>
  \<open>handler_argument\<close> is what \<^verbatim>\<open>_handle_request\<close> passes to the handler of a known
  method: the raw \<^verbatim>\<open>params\<close> when the method has no validator, the validator's dump
  when it has one and validation succeeds, and nothing when validation fails or
  \<^verbatim>\<open>params\<close> is no object.
\<close>

definition handler_argument :: "server \<Rightarrow> string \<Rightarrow> (string \<times> json) list \<Rightarrow> json option" where
  "handler_argument srv m message =
    (case validator_models srv m of
       None \<Rightarrow> Some (request_params message)
     | Some validator_model \<Rightarrow>
         (case request_params message of
            JDict kwargs \<Rightarrow>
              (case validator_model kwargs of Inl e \<Rightarrow> None | Inr dumped \<Rightarrow> Some dumped)
          | _ \<Rightarrow> None))"

lemma request_reaches_handler:
  assumes "dict_get d ''method'' = JStr m" and "map_of (tools srv) m \<noteq> None"
    and "handler_argument srv m d = Some p"
  shows "handle_request srv d = call_handler srv (dict_get d ''id'') m p"
  using assms
  by (auto simp: handle_request_def handler_argument_def Let_def hashable_def method_in_tools_def
      py_str_def split: option.splits json.splits sum.splits)


lemma handler_raises:
  assumes "handlers srv m = Some h" and "h p = Inl ex"
    and "transport srv = Some t" and "started t"
  shows "call_handler srv rid m p =
    (srv\<lparr>calls := calls srv @ [(m, p)],
          transport := Some (t\<lparr>stdout := stdout t @
        [wire (error_response rid (- 32603) ''Internal error'' (Some (exn_text ex)))]\<rparr>)\<rparr>,
     None)"
  using assms
  by (simp add: call_handler_def Let_def send_error_def transport_send_started)

lemma handler_returns:
  assumes "handlers srv m = Some h" and "h p = Inr result"
    and "transport srv = Some t" and "started t"
  shows "call_handler srv rid m p =
    (srv\<lparr>calls := calls srv @ [(m, p)],
          transport := Some (t\<lparr>stdout := stdout t @ [wire (success_response rid result)]\<rparr>)\<rparr>,
     None)"
  using assms
  by (simp add: call_handler_def Let_def transport_send_started)

lemma register_tools_untouched:
  assumes "m \<notin> tool_method ` set ts"
  shows "handlers (register_tools run cfg ts srv) m = handlers srv m"
    and "validator_models (register_tools run cfg ts srv) m = validator_models srv m"
  using assms
  by (induction ts arbitrary: srv; simp add: tool_handlers tool_validator_models)+

lemma register_tools_registered:
  assumes "distinct (map tool_method ts)" and "t \<in> set ts" and "is_tool_allowed t cfg"
  shows "handlers (register_tools run cfg ts srv) (tool_method t) = Some (create_handler run t)"
    and "validator_models (register_tools run cfg ts srv) (tool_method t)
           = Some (validate (parameters t))"
  using assms
proof (induction ts arbitrary: srv)
  case Nil
  { case 1 then show ?case by simp }
  { case 2 then show ?case by simp }
next
  case (Cons a ts)
  { case 1
    then show ?case
      by (cases "t = a")
         (auto simp: register_tools_untouched tool_handlers Cons.IH(1)) }
  { case 2
    then show ?case
      by (cases "t = a")
         (auto simp: register_tools_untouched tool_validator_models Cons.IH(2)) }
qed

lemma PayPal_registered:
  assumes "t \<in> set (get_tools prompt model)" and "is_tool_allowed t cfg"
  shows "handlers (PayPalMcpServer prompt model run cfg) (tool_method t)
           = Some (create_handler run t)"
    and "validator_models (PayPalMcpServer prompt model run cfg) (tool_method t)
           = Some (validate (parameters t))"
    and "map_of (tools (PayPalMcpServer prompt model run cfg)) (tool_method t) \<noteq> None"
proof -
  show "handlers (PayPalMcpServer prompt model run cfg) (tool_method t)
           = Some (create_handler run t)"
    unfolding PayPalMcpServer_def
    using register_tools_registered(1) [OF get_tools_distinct assms] .
  show "validator_models (PayPalMcpServer prompt model run cfg) (tool_method t)
           = Some (validate (parameters t))"
    unfolding PayPalMcpServer_def
    using register_tools_registered(2) [OF get_tools_distinct assms] .
  have "tool_method t \<in> set (enabled_methods prompt model cfg)"
    using assms by (auto simp: enabled_methods_def)
  then show "map_of (tools (PayPalMcpServer prompt model run cfg)) (tool_method t) \<noteq> None"
    using PayPalMcpServer_keys [of prompt model run cfg]
    by (metis map_of_eq_None_iff set_map)
qed

section \<open>Handler failures\<close>


lemma example_tools:
  "Tool ''get_invoice'' ''Get Invoice'' ''get_invoice_prompt'' GetInvoiceParameters
      [(''invoices'', [(''get'', True)])] \<in> set (get_tools (\<lambda>p. p) example_models)"
  "Tool ''get_shipment_tracking'' ''Get Shipment Tracking'' ''get_shipment_tracking_prompt''
      GetShipmentTrackingParameters [(''shipment'', [(''get'', True)])]
     \<in> set (get_tools (\<lambda>p. p) example_models)"
  by (simp_all add: get_tools_def example_models_def)

lemma example_tools_allowed:
  "is_tool_allowed (Tool ''get_invoice'' ''Get Invoice'' ''get_invoice_prompt'' GetInvoiceParameters
      [(''invoices'', [(''get'', True)])]) example_configuration"
  "is_tool_allowed (Tool ''get_shipment_tracking'' ''Get Shipment Tracking''
      ''get_shipment_tracking_prompt'' GetShipmentTrackingParameters
      [(''shipment'', [(''get'', True)])]) example_configuration"
  by (simp_all add: is_tool_allowed_def example_configuration_def)

lemma example_server_fields:
  "transport (example_server run) = Some \<lparr>started = True, closed = False, stdout = []\<rparr>"
  "calls (example_server run) = []"
  "handlers (example_server run) ''get_invoice'' =
     Some (create_handler run (Tool ''get_invoice'' ''Get Invoice'' ''get_invoice_prompt''
        GetInvoiceParameters [(''invoices'', [(''get'', True)])]))"
  "validator_models (example_server run) ''get_invoice'' = Some (validate GetInvoiceParameters)"
  "map_of (tools (example_server run)) ''get_invoice'' \<noteq> None"
  "handlers (example_server run) ''get_shipment_tracking'' =
     Some (create_handler run (Tool ''get_shipment_tracking'' ''Get Shipment Tracking''
        ''get_shipment_tracking_prompt'' GetShipmentTrackingParameters
        [(''shipment'', [(''get'', True)])]))"
  "validator_models (example_server run) ''get_shipment_tracking''
     = Some (validate GetShipmentTrackingParameters)"
  "map_of (tools (example_server run)) ''get_shipment_tracking'' \<noteq> None"
  using PayPal_registered [OF example_tools(1) example_tools_allowed(1), of run]
    PayPal_registered [OF example_tools(2) example_tools_allowed(2), of run]
  by (simp_all add: example_server_def start_def PayPalMcpServer_fields)







section \<open>What the handler receives\<close>

text \<open>
  Claim C10.  When a method has a validator and validation succeeds, the handler is called
  with the validator's dump of the parameters, not with the \<^verbatim>\<open>params\<close> object of the
  request: the call recorded is the method with the dump, and the request is answered from
  what the handler makes of the dump.  What the dump contains (defaults for omitted optional
  fields, normalised values) is the validator's own.
\<close>

theorem handler_receives_validated_dump:
  assumes "transport srv = Some t" and "started t"
    and "dict_get d ''type'' = JStr ''request''" and "dict_get d ''method'' = JStr m"
    and "map_of (tools srv) m \<noteq> None" and "handlers srv m = Some h"
    and "validator_models srv m = Some v" and "request_params d = JDict kwargs"
    and "v kwargs = Inr dumped"
  shows "calls (fst (handle_message (JDict d) srv)) = calls srv @ [(m, dumped)]
       \<and> handle_message (JDict d) srv =
           (srv\<lparr>calls := calls srv @ [(m, dumped)],
                 transport := Some (t\<lparr>stdout := stdout t @
                   [wire (case h dumped of
                            Inl ex \<Rightarrow> error_response (dict_get d ''id'') (- 32603)
                                        ''Internal error'' (Some (exn_text ex))
                          | Inr result \<Rightarrow> success_response (dict_get d ''id'') result)]\<rparr>)\<rparr>,
            None)"
proof -
  have "handler_argument srv m d = Some dumped"
    using assms(7,8,9) by (simp add: handler_argument_def)
  then have req: "handle_message (JDict d) srv = call_handler srv (dict_get d ''id'') m dumped"
    using assms(3,4,5) by (simp add: handle_message_def request_reaches_handler)
  show ?thesis
  proof (cases "h dumped")
    case (Inl ex)
    from handler_raises [OF assms(6) Inl assms(1,2)] req Inl show ?thesis by simp
  next
    case (Inr result)
    from handler_returns [OF assms(6) Inr assms(1,2)] req Inr show ?thesis by simp
  qed
qed

theorem handler_receives_validated_dump_witness:
  "calls (fst (handle_message
      (JDict [(''id'', JInt 6), (''type'', JStr ''request''),
              (''method'', JStr ''get_shipment_tracking''),
              (''params'', JDict [(''transaction_id'', JStr ''T1''), (''verbose'', JBool True)])])
      (example_server (\<lambda>m p. m))))
    = [(''get_shipment_tracking'',
        JDict [(''order_id'', JNull), (''transaction_id'', JStr ''T1'')])]"
proof -
  have d: "dict_get [(''id'', JInt 6), (''type'', JStr ''request''),
              (''method'', JStr ''get_shipment_tracking''),
              (''params'', JDict [(''transaction_id'', JStr ''T1''), (''verbose'', JBool True)])]
            ''type'' = JStr ''request''"
    "dict_get [(''id'', JInt 6), (''type'', JStr ''request''),
              (''method'', JStr ''get_shipment_tracking''),
              (''params'', JDict [(''transaction_id'', JStr ''T1''), (''verbose'', JBool True)])]
            ''method'' = JStr ''get_shipment_tracking''"
    "request_params [(''id'', JInt 6), (''type'', JStr ''request''),
              (''method'', JStr ''get_shipment_tracking''),
              (''params'', JDict [(''transaction_id'', JStr ''T1''), (''verbose'', JBool True)])]
      = JDict [(''transaction_id'', JStr ''T1''), (''verbose'', JBool True)]"
    by (simp_all add: dict_get_def request_params_def)
  have v: "validate GetShipmentTrackingParameters
             [(''transaction_id'', JStr ''T1''), (''verbose'', JBool True)]
           = Inr (JDict [(''order_id'', JNull), (''transaction_id'', JStr ''T1'')])"
    by (simp add: GetShipmentTrackingParameters_def optional_str_def)
  have started: "started \<lparr>started = True, closed = False, stdout = []\<rparr>" by simp
  from handler_receives_validated_dump
    [OF example_server_fields(1) started d(1,2) example_server_fields(8)
        example_server_fields(6) example_server_fields(7) d(3) v, of "\<lambda>m p. m"]
  show ?thesis by (simp add: example_server_fields(2))
qed

section \<open>Reading a framed message\<close>

lemma str_nat_digits: "list_all is_digit (str_nat n)"
proof (induction n rule: str_nat.induct)
  case (1 n)
  show ?case
  proof (cases "n < 10")
    case True
    then show ?thesis by (subst str_nat.simps) (simp add: is_digit_def)
  next
    case False
    have "n mod 10 < 10" by simp
    then have "is_digit (48 + n mod 10)" unfolding is_digit_def by linarith
    with False 1 show ?thesis by (subst str_nat.simps) simp
  qed
qed

lemma str_nat_not_Nil: "str_nat n \<noteq> []"
  by (subst str_nat.simps) simp

lemma int_of_digits_str_nat: "int_of_digits (str_nat n) = n"
proof (induction n rule: str_nat.induct)
  case (1 n)
  show ?case
  proof (cases "n < 10")
    case True
    then show ?thesis by (subst str_nat.simps) (simp add: int_of_digits_def)
  next
    case False
    with 1 have "int_of_digits (str_nat (n div 10)) = n div 10" by simp
    with False show ?thesis
      by (subst str_nat.simps) (simp add: int_of_digits_def)
  qed
qed

lemma takeWhile_digits:
  "list_all is_digit ds \<Longrightarrow> takeWhile is_digit (ds @ 13 # r) = ds"
  by (induction ds) (simp_all add: is_digit_def)

lemma length_header_name: "length header_name = 16"
  by (simp add: header_name_def)

lemma match_at_start_frame:
  "match_at_start (frame content @ rest)
     = Some (length content, 20 + length (str_nat (length content)))"
proof -
  let ?n = "length content"
  have s: "frame content @ rest = header_name @ (str_nat ?n @ 13 # [10, 13, 10] @ content @ rest)"
    by (simp add: frame_def crlf_crlf_def)
  have "take 16 (frame content @ rest) = header_name"
    unfolding s using length_header_name by simp
  moreover have d: "drop 16 (frame content @ rest) = str_nat ?n @ 13 # [10, 13, 10] @ content @ rest"
    unfolding s using length_header_name by simp
  moreover have tw: "takeWhile is_digit (drop 16 (frame content @ rest)) = str_nat ?n"
    unfolding d by (rule takeWhile_digits [OF str_nat_digits])
  moreover have "take 4 (drop (16 + length (str_nat ?n)) (frame content @ rest)) = crlf_crlf"
  proof -
    have "drop (16 + length (str_nat ?n)) (frame content @ rest)
            = drop (length (str_nat ?n)) (drop 16 (frame content @ rest))"
      by (simp only: drop_drop add.commute)
    also have "\<dots> = 13 # [10, 13, 10] @ content @ rest"
      unfolding d by simp
    finally show ?thesis by (simp add: crlf_crlf_def)
  qed
  ultimately show ?thesis
    by (simp add: match_at_start_def Let_def str_nat_not_Nil int_of_digits_str_nat)
qed

lemma frame_not_Nil: "frame content @ rest \<noteq> []"
  by (simp add: frame_def header_name_def)

lemma re_search_frame:
  "re_search (frame content @ rest)
     = Some (length content, 20 + length (str_nat (length content)))"
proof -
  obtain c s where cs: "frame content @ rest = c # s"
    using frame_not_Nil [of content rest] by (cases "frame content @ rest") auto
  have "re_search (c # s) = Some (length content, 20 + length (str_nat (length content)))"
    using match_at_start_frame [of content rest] unfolding cs by simp
  then show ?thesis unfolding cs .
qed

lemma length_frame: "length (frame content) = 20 + length (str_nat (length content)) + length content"
  by (simp add: frame_def header_name_def crlf_crlf_def)

lemma frame_split:
  "take (length content) (drop (20 + length (str_nat (length content))) (frame content @ rest)) = content"
  "drop (20 + length (str_nat (length content)) + length content) (frame content @ rest) = rest"
proof -
  have s: "frame content @ rest
     = (header_name @ str_nat (length content) @ crlf_crlf) @ content @ rest"
    by (simp add: frame_def)
  have l: "length (header_name @ str_nat (length content) @ crlf_crlf)
             = 20 + length (str_nat (length content))"
    by (simp add: header_name_def crlf_crlf_def)
  show "take (length content) (drop (20 + length (str_nat (length content))) (frame content @ rest)) = content"
    unfolding s l [symmetric] by simp
  have "drop (length (frame content)) (frame content @ rest) = rest" by simp
  then show "drop (20 + length (str_nat (length content)) + length content) (frame content @ rest) = rest"
    by (simp add: length_frame)
qed

lemma process_loop_frame:
  assumes "utf8_encode rest = Some rb"
  shows "process_loop loads onmessage onerror (frame content @ rest) (b, w) =
     (case parse_and_dispatch loads onmessage onerror content w of
        (w', Some e) \<Rightarrow> ((rb, w'), Some e)
      | (w', None) \<Rightarrow>
          (case (if rb \<noteq> [] then process_buffer loads onmessage onerror (rb, w')
                 else ((rb, w'), None)) of
             (st, Some e) \<Rightarrow> (st, Some e)
           | (st, None) \<Rightarrow> process_loop loads onmessage onerror rest st))"
  apply (subst process_loop.simps)
  apply (simp only: re_search_frame option.case prod.case)
  apply (simp only: length_append length_frame add.assoc [symmetric] frame_split Let_def assms option.case)
  apply simp
  done

lemma process_loop_Nil:
  "process_loop loads onmessage onerror [] st = (st, None)"
  by (cases st) (simp add: process_loop.simps)

section \<open>The framing round trip\<close>

lemma wire_decode: "utf8_decode (wire M) = frame (json_dumps M)"
  unfolding wire_def by (rule utf8_decode_ascii) simp

lemma wire_encode: "utf8_encode (frame (json_dumps M)) = Some (wire M)"
  unfolding wire_def by (rule utf8_encode_ascii) simp

lemma wire_not_Nil: "wire M \<noteq> []"
  by (simp add: wire_def frame_def header_name_def)

lemma parse_and_dispatch_delivered:
  assumes "loads content = Inr M" and "onmessage M w = (w', None)"
  shows "parse_and_dispatch loads (Some onmessage) onerror content w = (w', None)"
  using assms by (simp add: parse_and_dispatch_def)

lemma process_loop_single_frame:
  assumes "loads (json_dumps M) = Inr M" and "onmessage M w = (w', None)"
  shows "process_loop loads (Some onmessage) onerror (frame (json_dumps M)) (b, w)
           = (([], w'), None)"
proof -
  have "process_loop loads (Some onmessage) onerror (frame (json_dumps M) @ []) (b, w)
           = (([], w'), None)"
    using parse_and_dispatch_delivered [of loads "json_dumps M" M onmessage w w' onerror] assms
    by (subst process_loop_frame [where rb = "[]"]) (simp_all add: process_loop_Nil)
  then show ?thesis by simp
qed

lemma process_buffer_single_frame:
  assumes "loads (json_dumps M) = Inr M" and "onmessage M w = (w', None)"
  shows "process_buffer loads (Some onmessage) onerror (wire M, w) = (([], w'), None)"
  using process_loop_single_frame [of loads M onmessage w w' onerror "wire M"] assms
  by (simp add: process_buffer.simps wire_decode)

text \<open>
  Claim C8.  For a message \<open>M\<close> that \<^verbatim>\<open>json.loads\<close> reads back from its
  \<^verbatim>\<open>json.dumps\<close> text, \<^verbatim>\<open>send\<close> on a started transport writes one chunk: the header
  \<^verbatim>\<open>Content-Length: N\<close>, the blank line and the body, where \<open>N\<close> is the number of
  bytes of the UTF-8 body.  A reader with an empty buffer that receives this chunk calls the
  message callback once, with \<open>M\<close>, and is left with an empty buffer.
\<close>

theorem framing_round_trip:
  assumes "loads (json_dumps M) = Inr M" and "started t" and "onmessage M w = (w', None)"
  shows "send M t = (t\<lparr>stdout := stdout t @ [wire M]\<rparr>, None)
       \<and> (\<exists>body. utf8_encode (json_dumps M) = Some body
             \<and> wire M = map char_of (header_name @ str_nat (length body) @ crlf_crlf) @ body)
       \<and> process_buffer loads (Some onmessage) onerror (wire M, w) = (([], w'), None)"
proof -
  have "utf8_encode (json_dumps M) = Some (map char_of (json_dumps M))"
    by (rule utf8_encode_ascii) simp
  moreover have "wire M = map char_of (header_name @ str_nat (length (map char_of (json_dumps M)))
                    @ crlf_crlf) @ map char_of (json_dumps M)"
    by (simp add: wire_def frame_def)
  ultimately show ?thesis
    using send_started [OF assms(2)]
      process_buffer_single_frame [of loads M onmessage w w' onerror] assms(1,3) by blast
qed

text \<open>
  A message callback that appends the message to a list, and a decoder that reads back the
  \<^verbatim>\<open>json.dumps\<close> texts of the listed messages and raises \<^verbatim>\<open>JSONDecodeError\<close> on any
  other text.
\<close>

definition record_message :: "json \<Rightarrow> json list \<Rightarrow> json list \<times> pyexn option" where
  "record_message message received = (received @ [message], None)"

definition loads_table :: "json list \<Rightarrow> pystr \<Rightarrow> pyexn + json" where
  "loads_table known s =
    (case find (\<lambda>m. json_dumps m = s) known of
       Some m \<Rightarrow> Inr m
     | None \<Rightarrow> Inl (PyExn ''JSONDecodeError'' ''Expecting value''))"

definition crlf_crlf_bytes :: bytes where
  "crlf_crlf_bytes = [CHR 0x0D, CHR 0x0A, CHR 0x0D, CHR 0x0A]"

theorem framing_round_trip_witness:
  \<open>send (JDict [(''id'', JInt 1), (''type'', JStr ''request''), (''method'', JStr ''get_invoice''),
                (''params'', JDict [(''invoice_id'', JStr ''INV-1'')])])
        \<lparr>started = True, closed = False, stdout = []\<rparr>
     = (\<lparr>started = True, closed = False, stdout =
          [''Content-Length: 88'' @ crlf_crlf_bytes @
           ''{"id": 1, "type": "request", "method": "get_invoice", "params": {"invoice_id": "INV-1"}}'']\<rparr>,
        None)
   \<and> process_buffer
        (loads_table [JDict [(''id'', JInt 1), (''type'', JStr ''request''),
                             (''method'', JStr ''get_invoice''),
                             (''params'', JDict [(''invoice_id'', JStr ''INV-1'')])]])
        (Some record_message) None
        (''Content-Length: 88'' @ crlf_crlf_bytes @
           ''{"id": 1, "type": "request", "method": "get_invoice", "params": {"invoice_id": "INV-1"}}'',
         [])
     = (([], [JDict [(''id'', JInt 1), (''type'', JStr ''request''),
                     (''method'', JStr ''get_invoice''),
                     (''params'', JDict [(''invoice_id'', JStr ''INV-1'')])]]), None)\<close>
proof -
  let ?M = "JDict [(''id'', JInt 1), (''type'', JStr ''request''), (''method'', JStr ''get_invoice''),
                (''params'', JDict [(''invoice_id'', JStr ''INV-1'')])]"
  have w: \<open>wire ?M = ''Content-Length: 88'' @ crlf_crlf_bytes @
           ''{"id": 1, "type": "request", "method": "get_invoice", "params": {"invoice_id": "INV-1"}}''\<close>
    by code_simp
  have l: "loads_table [?M] (json_dumps ?M) = Inr ?M"
    by (simp add: loads_table_def)
  have s: "started \<lparr>started = True, closed = False, stdout = []\<rparr>" by simp
  have r: "record_message ?M [] = ([?M], None)" by (simp add: record_message_def)
  from framing_round_trip [of "loads_table [?M]" ?M "\<lparr>started = True, closed = False, stdout = []\<rparr>"
      record_message "[]" "[?M]" None, OF l s r]
  show ?thesis unfolding w by simp
qed

section \<open>Two messages in one chunk\<close>

lemma wire_append_decode: "utf8_decode (wire M1 @ wire M2) = frame (json_dumps M1) @ frame (json_dumps M2)"
proof -
  have "wire M1 @ wire M2 = map char_of (frame (json_dumps M1) @ frame (json_dumps M2))"
    by (simp add: wire_def)
  then show ?thesis by (simp only: utf8_decode_ascii ascii_simps ascii_frame ascii_json_dumps)
qed

text \<open>
  Claim C1 (the code departs from it).  When the frames of two messages arrive in one
  chunk, \<^verbatim>\<open>_process_buffer\<close> calls the message callback three times: with the first
  message, with the second, and with the second again.  After the first message the method
  calls itself on the rest of the buffer, which dispatches the second message; back in the
  caller, the \<^verbatim>\<open>while\<close> loop goes on with its own copy of the rest and dispatches
  the second message once more.
\<close>

theorem second_message_dispatched_twice:
  assumes "loads (json_dumps M1) = Inr M1" and "loads (json_dumps M2) = Inr M2"
    and "onmessage M1 w = (w1, None)" and "onmessage M2 w1 = (w2, None)"
    and "onmessage M2 w2 = (w3, None)"
  shows "process_buffer loads (Some onmessage) onerror (wire M1 @ wire M2, w) = (([], w3), None)"
proof -
  have first: "parse_and_dispatch loads (Some onmessage) onerror (json_dumps M1) w = (w1, None)"
    using assms(1,3) by (simp add: parse_and_dispatch_def)
  have inner: "process_buffer loads (Some onmessage) onerror (wire M2, w1) = (([], w2), None)"
    using process_buffer_single_frame [of loads M2 onmessage w1 w2 onerror] assms(2,4) by simp
  have again: "process_loop loads (Some onmessage) onerror (frame (json_dumps M2)) ([], w2)
                 = (([], w3), None)"
    using process_loop_single_frame [of loads M2 onmessage w2 w3 onerror "[]"] assms(2,5) by simp
  have "process_loop loads (Some onmessage) onerror
          (frame (json_dumps M1) @ frame (json_dumps M2)) (wire M1 @ wire M2, w) = (([], w3), None)"
    by (subst process_loop_frame [where rb = "wire M2"])
       (simp_all add: wire_encode first wire_not_Nil inner again)
  then show ?thesis by (simp add: process_buffer.simps wire_append_decode)
qed

lemma ping_response_frame:
  "ping_response (srv\<lparr>transport := x\<rparr>) d = ping_response srv d"
  by (simp add: ping_response_def)

text \<open>
  The chunk of the two pings used below, byte for byte.
\<close>

lemma ping_frame_bytes:
  \<open>wire (JDict [(''id'', JInt 1), (''type'', JStr ''ping'')])
     = ''Content-Length: 25'' @ crlf_crlf_bytes @ ''{"id": 1, "type": "ping"}''\<close>
  \<open>wire (JDict [(''id'', JInt 2), (''type'', JStr ''ping'')])
     = ''Content-Length: 25'' @ crlf_crlf_bytes @ ''{"id": 2, "type": "ping"}''\<close>
  by code_simp+

theorem second_message_dispatched_twice_witness:
  "process_buffer
     (loads_table [JDict [(''id'', JInt 1), (''type'', JStr ''ping'')],
                   JDict [(''id'', JInt 2), (''type'', JStr ''ping'')]])
     (Some handle_message) None
     (wire (JDict [(''id'', JInt 1), (''type'', JStr ''ping'')])
        @ wire (JDict [(''id'', JInt 2), (''type'', JStr ''ping'')]),
      example_server (\<lambda>m p. m))
   = (([], (example_server (\<lambda>m p. m))
        \<lparr>transport := Some \<lparr>started = True, closed = False, stdout =
           [wire (ping_response (example_server (\<lambda>m p. m)) [(''id'', JInt 1), (''type'', JStr ''ping'')]),
            wire (ping_response (example_server (\<lambda>m p. m)) [(''id'', JInt 2), (''type'', JStr ''ping'')]),
            wire (ping_response (example_server (\<lambda>m p. m)) [(''id'', JInt 2), (''type'', JStr ''ping'')])]\<rparr>\<rparr>),
      None)"
proof -
  let ?P1 = "[(''id'', JInt 1), (''type'', JStr ''ping'')]"
  let ?P2 = "[(''id'', JInt 2), (''type'', JStr ''ping'')]"
  let ?S = "example_server (\<lambda>m p. m)"
  let ?L = "loads_table [JDict ?P1, JDict ?P2]"
  let ?r1 = "wire (ping_response ?S ?P1)"
  let ?r2 = "wire (ping_response ?S ?P2)"
  let ?S1 = "?S\<lparr>transport := Some \<lparr>started = True, closed = False, stdout = [?r1]\<rparr>\<rparr>"
  let ?S2 = "?S\<lparr>transport := Some \<lparr>started = True, closed = False, stdout = [?r1, ?r2]\<rparr>\<rparr>"
  let ?S3 = "?S\<lparr>transport := Some \<lparr>started = True, closed = False, stdout = [?r1, ?r2, ?r2]\<rparr>\<rparr>"
  have ne: "json_dumps (JDict ?P1) \<noteq> json_dumps (JDict ?P2)" by code_simp
  have l1: "?L (json_dumps (JDict ?P1)) = Inr (JDict ?P1)"
    by (simp add: loads_table_def)
  have l2: "?L (json_dumps (JDict ?P2)) = Inr (JDict ?P2)"
    using ne by (simp add: loads_table_def)
  have t: "dict_get ?P1 ''type'' = JStr ''ping''" "dict_get ?P2 ''type'' = JStr ''ping''"
    by (simp_all add: dict_get_def)
  have h1: "handle_message (JDict ?P1) ?S = (?S1, None)"
    using handle_ping [OF t(1) example_server_fields(1), of "\<lambda>m p. m"] by simp
  have h2: "handle_message (JDict ?P2) ?S1 = (?S2, None)"
    using handle_ping [OF t(2), of ?S1 "\<lparr>started = True, closed = False, stdout = [?r1]\<rparr>"]
    by (simp add: ping_response_frame)
  have h3: "handle_message (JDict ?P2) ?S2 = (?S3, None)"
    using handle_ping [OF t(2), of ?S2 "\<lparr>started = True, closed = False, stdout = [?r1, ?r2]\<rparr>"]
    by (simp add: ping_response_frame)
  from second_message_dispatched_twice
    [of ?L "JDict ?P1" "JDict ?P2" handle_message ?S ?S1 ?S2 ?S3 None, OF l1 l2 h1 h2 h3]
  show ?thesis .
qed

section \<open>A body with a multi-byte character\<close>

text \<open>
  A ping whose id is the one-character string U+00E9, as a peer writes it in UTF-8
  without escapes, framed with the byte length of the body.
\<close>

definition accented_body :: bytes where
  \<open>accented_body = ''{"id":"'' @ [CHR 0xC3, CHR 0xA9] @ ''","type":"ping"}''\<close>

definition accented_frame :: bytes where
  "accented_frame = ''Content-Length: 25'' @ crlf_crlf_bytes @ accented_body"

lemma accented_search:
  "re_search (utf8_decode accented_frame) = Some (25, 22)"
  "length (utf8_decode accented_frame) = 46"
  by code_simp+

lemma accented_search_next:
  "re_search (utf8_decode (accented_frame @ ''C'')) = Some (25, 22)"
  "length (utf8_decode (accented_frame @ ''C'')) = 47"
  "take 25 (drop 22 (utf8_decode (accented_frame @ ''C''))) = utf8_decode accented_body @ [67]"
  "drop 47 (utf8_decode (accented_frame @ ''C'')) = []"
  by code_simp+

text \<open>
  Claim C2 (the code departs from it).  The frame below declares \<^verbatim>\<open>Content-Length: 25\<close>
  and its body is 25 bytes of UTF-8, one character of which takes two bytes.
  \<^verbatim>\<open>_process_buffer\<close> decodes the buffer and compares the number of characters with the
  end of the header plus 25: the decoded buffer has 46 characters, 47 are asked for, so
  with the whole frame in the buffer nothing is delivered and the buffer is kept.  When the
  first byte of a following frame arrives, the message is cut one character too long.
\<close>

theorem multibyte_body_not_delivered:
  "length accented_body = 25
   \<and> length (utf8_decode accented_body) = 24
   \<and> process_buffer loads onmessage onerror (accented_frame, w) = ((accented_frame, w), None)
   \<and> process_buffer loads onmessage onerror (accented_frame @ ''C'', w) =
       (case parse_and_dispatch loads onmessage onerror (utf8_decode accented_body @ [67]) w of
          (w', r) \<Rightarrow> (([], w'), r))"
proof -
  have a: "length accented_body = 25" "length (utf8_decode accented_body) = 24"
    by code_simp+
  have b: "process_buffer loads onmessage onerror (accented_frame, w) = ((accented_frame, w), None)"
    by (simp add: process_buffer.simps) (subst process_loop.simps, simp add: accented_search)
  have c: "process_buffer loads onmessage onerror (accented_frame @ ''C'', w) =
       (case parse_and_dispatch loads onmessage onerror (utf8_decode accented_body @ [67]) w of
          (w', r) \<Rightarrow> (([], w'), r))"
    apply (simp only: process_buffer.simps)
    apply (subst process_loop.simps)
    apply (simp only: accented_search_next option.case prod.case Let_def)
    apply (simp add: accented_search_next process_loop_Nil split: prod.splits option.splits)
    done
  from a b c show ?thesis by simp
qed

end
